theory Spec2Isabelle
  imports
    Main
    "HOL-Library.Char_ord"
    "HOL-Library.List_Lexorder"
    "HOL-Library.Multiset"
begin

section \<open>The book controller of the local library\<close>

text \<open>
  The module \<^verbatim>\<open>controllers/bookController.js\<close> is a set of Express request handlers
  over two Mongoose collections, Book and Author. Each handler is embedded as a function
  from the request and the document store to the store it leaves behind and the calls it
  issues, in order, on the response object and on \<^verbatim>\<open>next\<close>. A handler that calls
  \<^verbatim>\<open>res.redirect\<close> and goes on to call \<^verbatim>\<open>res.render\<close> therefore has a trace of two
  actions; what Express does with the second call is outside the module.

  A string is the sequence of the bytes of its UTF-8 encoding: a character beyond ASCII
  is two to four bytes (U+00A0 is \<open>[CHR 0xC2, CHR 0xA0]\<close>), and a byte from \<open>0x80\<close> on never
  stands for a character by itself. Strings are ordered by the ordinal value of their
  bytes (lexicographically), which is the order of their code points and the order of an
  ascending sort on a string field without collation.
  Store operations always succeed: a rejected promise would be forwarded by
  \<^verbatim>\<open>asyncHandler\<close> and is not part of the model.
\<close>

subsection \<open>Documents and the store\<close>

text \<open>
  An Author document; only the identifier and the family name (the sort key of the form's
  author list) are exercised by this module.
\<close>

record author_doc =
  author_id :: string
  family_name :: string

text \<open>
  A Book document. The type of \<open>author\<close> is \<open>string\<close> (the referenced identifier) in a
  stored or freshly constructed document and \<open>author_doc option\<close> once the reference has
  been populated (\<open>None\<close> is the \<^verbatim>\<open>null\<close> of a reference that resolves to nothing). The
  type of \<open>summary\<close> is \<open>unit\<close> in the result of a query that selects only
  \<^verbatim>\<open>"title author"\<close>.
\<close>

record ('a, 's) book_doc =
  book_id :: string
  title :: string
  author :: 'a
  summary :: 's

type_synonym book = "(string, string) book_doc"
type_synonym populated_book = "(author_doc option, string) book_doc"
type_synonym listed_book = "(author_doc option, unit) book_doc"

text \<open>Both collections in their natural order.\<close>

record store =
  books :: "book list"
  authors :: "author_doc list"

text \<open>
  Modelled from the spec: the \<^verbatim>\<open>url\<close> virtual of the Book model
  (\<^verbatim>\<open>models/book.js\<close>, not part of the sources at hand), the canonical path built from
  the identifier, as in the scenario that redirects to \<^verbatim>\<open>/catalog/book/B1\<close>.
\<close>

definition url :: "('a, 's) book_doc \<Rightarrow> string" where
  "url b = ''/catalog/book/'' @ book_id b"

subsection \<open>Requests, view models and the actions of a handler\<close>

text \<open>
  The parts of a request the handlers read: \<^verbatim>\<open>req.params.id\<close> and the fields
  \<^verbatim>\<open>id\<close>, \<^verbatim>\<open>title\<close>, \<^verbatim>\<open>author\<close> and \<^verbatim>\<open>summary\<close> of
  \<^verbatim>\<open>req.body\<close>, each a string.
\<close>

record request =
  params_id :: string
  body_id :: string
  body_title :: string
  body_author :: string
  body_summary :: string

record validation_error =
  field :: string
  msg :: string

text \<open>The value passed under the key \<^verbatim>\<open>book\<close> of a view model.\<close>

datatype book_value =
    Null
  | Populated populated_book
  | Document book

text \<open>
  The object literal handed to \<^verbatim>\<open>res.render\<close>; a key the literal does not mention
  is \<open>None\<close>.
\<close>

record view_model =
  vm_title :: string
  vm_book_list :: "listed_book list option"
  vm_authors :: "author_doc list option"
  vm_book :: "book_value option"
  vm_errors :: "validation_error list option"

text \<open>The \<^verbatim>\<open>Error\<close> object given to \<^verbatim>\<open>next\<close>, with its \<^verbatim>\<open>status\<close> property.\<close>

record http_error =
  message :: string
  status :: nat

datatype action =
    Render string view_model
  | Redirect string
  | Next http_error

fun is_Next :: "action \<Rightarrow> bool" where
  "is_Next (Next e) = True"
| "is_Next a = False"

fun is_Render :: "action \<Rightarrow> bool" where
  "is_Render (Render t vm) = True"
| "is_Render a = False"

type_synonym outcome = "store \<times> action list"

subsection \<open>Store operations\<close>

text \<open>\<^verbatim>\<open>Author.find().sort({ family_name: 1 })\<close>\<close>

definition Author_find_sorted :: "store \<Rightarrow> author_doc list" where
  "Author_find_sorted st = sort_key family_name (authors st)"

text \<open>\<^verbatim>\<open>.populate("author")\<close>: the reference is replaced by the Author it names.\<close>

definition populate :: "store \<Rightarrow> (string, 's) book_doc \<Rightarrow> (author_doc option, 's) book_doc" where
  "populate st b =
     \<lparr>book_id = book_id b, title = title b,
      author = find (\<lambda>a. author_id a = author b) (authors st),
      summary = summary b\<rparr>"

text \<open>The projection \<^verbatim>\<open>"title author"\<close> (the identifier is always kept).\<close>

definition select_title_author :: "book \<Rightarrow> (string, unit) book_doc" where
  "select_title_author b =
     \<lparr>book_id = book_id b, title = title b, author = author b, summary = ()\<rparr>"

text \<open>\<^verbatim>\<open>Book.find({}, "title author").sort({ title: 1 }).populate("author")\<close>\<close>

definition Book_find_sorted :: "store \<Rightarrow> listed_book list" where
  "Book_find_sorted st =
     map (populate st) (map select_title_author (sort_key title (books st)))"

text \<open>\<^verbatim>\<open>Book.findById(id).populate("author")\<close>\<close>

definition Book_findById :: "string \<Rightarrow> store \<Rightarrow> populated_book option" where
  "Book_findById i st = map_option (populate st) (find (\<lambda>b. book_id b = i) (books st))"

text \<open>\<^verbatim>\<open>book.save()\<close> of a new document.\<close>

definition save :: "book \<Rightarrow> store \<Rightarrow> store" where
  "save b st = st\<lparr>books := books st @ [b]\<rparr>"

text \<open>\<^verbatim>\<open>Book.findByIdAndDelete(id)\<close>: the first document with that identifier goes.\<close>

fun delete_one :: "string \<Rightarrow> book list \<Rightarrow> book list" where
  "delete_one i [] = []"
| "delete_one i (b # bs) = (if book_id b = i then bs else b # delete_one i bs)"

definition Book_findByIdAndDelete :: "string \<Rightarrow> store \<Rightarrow> store" where
  "Book_findByIdAndDelete i st = st\<lparr>books := delete_one i (books st)\<rparr>"

text \<open>
  \<^verbatim>\<open>Book.findByIdAndUpdate(id, book, {})\<close>: the fields of the given document are set
  on the first stored document with that identifier; without one nothing is written.
\<close>

fun update_one :: "string \<Rightarrow> book \<Rightarrow> book list \<Rightarrow> book list" where
  "update_one i u [] = []"
| "update_one i u (b # bs) =
     (if book_id b = i
      then b\<lparr>title := title u, author := author u, summary := summary u\<rparr> # bs
      else b # update_one i u bs)"

definition Book_findByIdAndUpdate :: "string \<Rightarrow> book \<Rightarrow> store \<Rightarrow> store" where
  "Book_findByIdAndUpdate i u st = st\<lparr>books := update_one i u (books st)\<rparr>"

subsection \<open>Validation and sanitization of the body fields\<close>

text \<open>
  \<^verbatim>\<open>trim\<close>, \<^verbatim>\<open>isLength\<close> and \<^verbatim>\<open>escape\<close> belong to the validation library the
  module requires, not to the module; they are embedded by their documented behaviour on
  string fields. \<^verbatim>\<open>escape\<close> replaces the characters \<^verbatim>\<open>& " ' < > / \ `\<close> by
  entities; no entity contains a character that a later replacement looks for, so the
  replacements act character by character, and as all eight are ASCII, byte by byte.
\<close>

text \<open>
  The characters that the regular expression class \<^verbatim>\<open>\s\<close> of JavaScript matches, each
  as the bytes of its UTF-8 encoding: U+0009 to U+000D (tab, line feed, vertical tab, form
  feed, carriage return), U+0020 (space), U+00A0 (no-break space), U+1680, U+2000 to
  U+200A, U+2028, U+2029, U+202F, U+205F, U+3000 and U+FEFF.
\<close>

definition whitespace :: "string list" where
  "whitespace =
     [[CHR 0x09], [CHR 0x0A], [CHR 0x0B], [CHR 0x0C], [CHR 0x0D], [CHR 0x20],
      [CHR 0xC2, CHR 0xA0],
      [CHR 0xE1, CHR 0x9A, CHR 0x80],
      [CHR 0xE2, CHR 0x80, CHR 0x80], [CHR 0xE2, CHR 0x80, CHR 0x81],
      [CHR 0xE2, CHR 0x80, CHR 0x82], [CHR 0xE2, CHR 0x80, CHR 0x83],
      [CHR 0xE2, CHR 0x80, CHR 0x84], [CHR 0xE2, CHR 0x80, CHR 0x85],
      [CHR 0xE2, CHR 0x80, CHR 0x86], [CHR 0xE2, CHR 0x80, CHR 0x87],
      [CHR 0xE2, CHR 0x80, CHR 0x88], [CHR 0xE2, CHR 0x80, CHR 0x89],
      [CHR 0xE2, CHR 0x80, CHR 0x8A],
      [CHR 0xE2, CHR 0x80, CHR 0xA8], [CHR 0xE2, CHR 0x80, CHR 0xA9],
      [CHR 0xE2, CHR 0x80, CHR 0xAF],
      [CHR 0xE2, CHR 0x81, CHR 0x9F],
      [CHR 0xE3, CHR 0x80, CHR 0x80],
      [CHR 0xEF, CHR 0xBB, CHR 0xBF]]"

text \<open>
  \<open>strip ws s\<close> removes from the front of \<open>s\<close>, for as long as there is one, a leading
  occurrence of a sequence of \<open>ws\<close>.
\<close>

fun strip :: "string list \<Rightarrow> string \<Rightarrow> string" where
  "strip ws [] = []"
| "strip ws (c # cs) =
     (case find (\<lambda>w. w \<noteq> [] \<and> take (length w) (c # cs) = w) ws of
        None \<Rightarrow> c # cs
      | Some w \<Rightarrow> strip ws (drop (length w - 1) cs))"

text \<open>
  The library's \<^verbatim>\<open>trim\<close> without a character set is \<^verbatim>\<open>rtrim(ltrim(str))\<close>:
  \<^verbatim>\<open>ltrim\<close> deletes the match of \<^verbatim>\<open>/^\s+/\<close>, \<^verbatim>\<open>rtrim\<close> steps back from the end
  over the characters that \<^verbatim>\<open>\s\<close> matches. In UTF-8 the encoding of a character is
  neither the beginning nor the end of the encoding of another, so a string begins or
  ends with a whitespace character exactly when its bytes begin or end with the bytes of
  one.
\<close>

definition ltrim :: "string \<Rightarrow> string" where
  "ltrim s = strip whitespace s"

definition rtrim :: "string \<Rightarrow> string" where
  "rtrim s = rev (strip (map rev whitespace) (rev s))"

definition trim :: "string \<Rightarrow> string" where
  "trim s = rtrim (ltrim s)"

text \<open>No sequence of the list is empty or the beginning of another one.\<close>

definition prefix_free :: "string list \<Rightarrow> bool" where
  "prefix_free ws \<longleftrightarrow>
     [] \<notin> set ws \<and> (\<forall>w\<in>set ws. \<forall>v\<in>set ws. take (length w) v = w \<longrightarrow> w = v)"

text \<open>
  The length check with \<^verbatim>\<open>min: 1\<close> asks for at least one character, that is, for at
  least one byte.
\<close>

definition isLength_min :: "nat \<Rightarrow> string \<Rightarrow> bool" where
  "isLength_min n s = (n \<le> length s)"

fun escape_char :: "char \<Rightarrow> string" where
  "escape_char c =
     (if c = CHR ''&'' then ''&amp;''
      else if c = CHR 0x22 then ''&quot;''
      else if c = CHR 0x27 then ''&#x27;''
      else if c = CHR ''<'' then ''&lt;''
      else if c = CHR ''>'' then ''&gt;''
      else if c = CHR ''/'' then ''&#x2F;''
      else if c = CHR 0x5C then ''&#x5C;''
      else if c = CHR 0x60 then ''&#96;''
      else [c])"

definition escape :: "string \<Rightarrow> string" where
  "escape s = concat (map escape_char s)"

text \<open>
  One chain \<^verbatim>\<open>body(f, m).trim().isLength({ min: 1 }).escape()\<close> on the value of its
  field: the sanitized value that replaces it in the body, and the error the length check
  records on the trimmed value.
\<close>

definition body_chain :: "string \<Rightarrow> string \<Rightarrow> string \<Rightarrow> string \<times> validation_error list" where
  "body_chain f m v =
     (let t = trim v
      in (escape t, if isLength_min 1 t then [] else [\<lparr>field = f, msg = m\<rparr>]))"

text \<open>
  The three chains in front of the create and the update handler, run in order: the
  request with its body sanitized, and \<^verbatim>\<open>validationResult(req).array()\<close>.
\<close>

definition validate :: "request \<Rightarrow> request \<times> validation_error list" where
  "validate req =
     (let (t, e1) = body_chain ''title'' ''Title must not be empty.'' (body_title req);
          (a, e2) = body_chain ''author'' ''Author must not be empty.'' (body_author req);
          (s, e3) = body_chain ''summary'' ''Summary must not be empty.'' (body_summary req)
      in (req\<lparr>body_title := t, body_author := a, body_summary := s\<rparr>, e1 @ e2 @ e3))"

subsection \<open>The handlers\<close>

definition book_list :: "request \<Rightarrow> store \<Rightarrow> outcome" where
  "book_list req st =
     (let allBooks = Book_find_sorted st
      in (st, [Render ''book_list''
                 \<lparr>vm_title = ''Book List'', vm_book_list = Some allBooks,
                  vm_authors = None, vm_book = None, vm_errors = None\<rparr>]))"

definition book_detail :: "request \<Rightarrow> store \<Rightarrow> outcome" where
  "book_detail req st =
     (case Book_findById (params_id req) st of
        None \<Rightarrow> (st, [Next \<lparr>message = ''Book not found'', status = 404\<rparr>])
      | Some book \<Rightarrow>
          (st, [Render ''book_detail''
                  \<lparr>vm_title = title book, vm_book_list = None, vm_authors = None,
                   vm_book = Some (Populated book), vm_errors = None\<rparr>]))"

definition book_create_get :: "request \<Rightarrow> store \<Rightarrow> outcome" where
  "book_create_get req st =
     (let allAuthors = Author_find_sorted st
      in (st, [Render ''book_form''
                 \<lparr>vm_title = ''Create Book'', vm_book_list = None,
                  vm_authors = Some allAuthors, vm_book = None, vm_errors = None\<rparr>]))"

text \<open>
  \<open>oid\<close> is the identifier that \<^verbatim>\<open>new Book\<close> draws for the document it constructs.
\<close>

definition book_create_post :: "string \<Rightarrow> request \<Rightarrow> store \<Rightarrow> outcome" where
  "book_create_post oid req0 st =
     (let (req, errors) = validate req0;
          book = \<lparr>book_id = oid, title = body_title req, author = body_author req,
                  summary = body_summary req\<rparr>
      in if errors \<noteq> []
         then (let allAuthors = Author_find_sorted st
               in (st, [Render ''book_form''
                          \<lparr>vm_title = ''Create Book'', vm_book_list = None,
                           vm_authors = Some allAuthors, vm_book = Some (Document book),
                           vm_errors = Some errors\<rparr>]))
         else (save book st, [Redirect (url book)]))"

text \<open>
  The two delete handlers test the lookup and redirect, and then go on: the branch
  has no \<^verbatim>\<open>return\<close>.
\<close>

definition book_delete_get :: "request \<Rightarrow> store \<Rightarrow> outcome" where
  "book_delete_get req st =
     (let book = Book_findById (params_id req) st;
          r1 = (if book = None then [Redirect ''/catalog/books''] else [])
      in (st, r1 @ [Render ''book_delete''
                      \<lparr>vm_title = ''Delete Book'', vm_book_list = None, vm_authors = None,
                       vm_book = Some (case book of None \<Rightarrow> Null | Some b \<Rightarrow> Populated b),
                       vm_errors = None\<rparr>]))"

definition book_delete_post :: "request \<Rightarrow> store \<Rightarrow> outcome" where
  "book_delete_post req st =
     (let book = Book_findById (params_id req) st;
          r1 = (if book = None then [Redirect ''/catalog/books''] else [])
      in (Book_findByIdAndDelete (body_id req) st, r1 @ [Redirect ''/catalog/books'']))"

definition book_update_get :: "request \<Rightarrow> store \<Rightarrow> outcome" where
  "book_update_get req st =
     (let book = Book_findById (params_id req) st;
          allAuthors = Author_find_sorted st
      in case book of
           None \<Rightarrow> (st, [Next \<lparr>message = ''Book not found'', status = 404\<rparr>])
         | Some b \<Rightarrow>
             (st, [Render ''book_form''
                     \<lparr>vm_title = ''Update Book'', vm_book_list = None,
                      vm_authors = Some allAuthors, vm_book = Some (Populated b),
                      vm_errors = None\<rparr>]))"

definition book_update_post :: "request \<Rightarrow> store \<Rightarrow> outcome" where
  "book_update_post req0 st =
     (let (req, errors) = validate req0;
          book = \<lparr>book_id = params_id req, title = body_title req, author = body_author req,
                  summary = body_summary req\<rparr>
      in if errors \<noteq> []
         then (let allAuthors = Author_find_sorted st
               in (st, [Render ''book_form''
                          \<lparr>vm_title = ''Update Book'', vm_book_list = None,
                           vm_authors = Some allAuthors, vm_book = Some (Document book),
                           vm_errors = Some errors\<rparr>]))
         else (Book_findByIdAndUpdate (params_id req) book st, [Redirect (url book)]))"

definition index :: "request \<Rightarrow> store \<Rightarrow> outcome" where
  "index req st =
     (let allBooks = Book_find_sorted st
      in (st, [Render ''index''
                 \<lparr>vm_title = ''Home'', vm_book_list = Some allBooks,
                  vm_authors = None, vm_book = None, vm_errors = None\<rparr>]))"

subsection \<open>Sample data\<close>

text \<open>
  A store of two books in an order that is not the order of their titles, the second with
  an author reference that names no Author, and four requests: one whose title is a
  no-break space, a space and an em space (U+2003), whose author is empty and whose
  summary needs trimming and escaping; one with valid fields in ASCII; one whose valid
  title is padded by a no-break space and an em space and needs escaping; and one for an
  identifier that is not stored.
\<close>

abbreviation sample_store :: store where
  "sample_store \<equiv>
     \<lparr>books = [\<lparr>book_id = ''B1'', title = ''b'', author = ''A1'', summary = ''s1''\<rparr>,
               \<lparr>book_id = ''B2'', title = ''Z'', author = ''A9'', summary = ''s2''\<rparr>],
      authors = [\<lparr>author_id = ''A2'', family_name = ''Woolf''\<rparr>,
                 \<lparr>author_id = ''A1'', family_name = ''Austen''\<rparr>]\<rparr>"

abbreviation blank_title_request :: request where
  "blank_title_request \<equiv>
     \<lparr>params_id = ''B1'', body_id = ''B2'',
      body_title = [CHR 0xC2, CHR 0xA0, CHR 0x20, CHR 0xE2, CHR 0x80, CHR 0x83],
      body_author = '''', body_summary = '' <S> & T ''\<rparr>"

abbreviation padded_request :: request where
  "padded_request \<equiv>
     \<lparr>params_id = ''B1'', body_id = ''B2'',
      body_title = [CHR 0xC2, CHR 0xA0] @ ''Dune & <Sons>'' @ [CHR 0xE2, CHR 0x80, CHR 0x83],
      body_author = '' A2 '', body_summary = ''New Summary''\<rparr>"

abbreviation valid_request :: request where
  "valid_request \<equiv>
     \<lparr>params_id = ''B1'', body_id = ''B2'', body_title = '' New <Title> '',
      body_author = ''A2'', body_summary = ''New Summary''\<rparr>"

abbreviation missing_request :: request where
  "missing_request \<equiv>
     \<lparr>params_id = ''B9'', body_id = ''B2'', body_title = ''New Title'',
      body_author = ''A2'', body_summary = ''New Summary''\<rparr>"

section \<open>Properties\<close>

subsection \<open>Auxiliary facts about the sanitizers and the store operations\<close>

lemmas eval_simps = trim_def ltrim_def rtrim_def whitespace_def escape_def

lemma strip_Nil_concat:
  "strip ws s = [] \<Longrightarrow> \<exists>us. set us \<subseteq> set ws \<and> concat us = s"
proof (induction ws s rule: strip.induct)
  case (1 ws)
  have "set [] \<subseteq> set ws \<and> concat ([] :: string list) = []" by simp
  then show ?case by blast
next
  case (2 ws c cs)
  from "2.prems" obtain w
    where f: "find (\<lambda>w. w \<noteq> [] \<and> take (length w) (c # cs) = w) ws = Some w"
      and r: "strip ws (drop (length w - 1) cs) = []"
    by (auto split: option.splits)
  from f have w: "w \<in> set ws" "w \<noteq> []" "take (length w) (c # cs) = w"
    by (auto simp: find_Some_iff)
  from "2.IH" [OF f r] obtain us
    where us: "set us \<subseteq> set ws" "concat us = drop (length w - 1) cs" by blast
  from w(2) have "drop (length w) (c # cs) = drop (length w - 1) cs"
    by (cases w) simp_all
  with w(3) have "c # cs = w @ drop (length w - 1) cs"
    by (metis append_take_drop_id)
  with us w(1) have "set (w # us) \<subseteq> set ws \<and> concat (w # us) = c # cs" by simp
  then show ?case by blast
qed

lemma strip_head:
  "strip ws s = c # cs \<Longrightarrow> find (\<lambda>w. w \<noteq> [] \<and> take (length w) (c # cs) = w) ws = None"
proof (induction ws s rule: strip.induct)
  case (1 ws)
  then show ?case by simp
next
  case (2 ws d ds)
  show ?case
  proof (cases "find (\<lambda>w. w \<noteq> [] \<and> take (length w) (d # ds) = w) ws")
    case None
    with "2.prems" show ?thesis by simp
  next
    case (Some w)
    with "2.prems" have "strip ws (drop (length w - 1) ds) = c # cs" by simp
    with "2.IH" [OF Some] show ?thesis .
  qed
qed

lemma strip_concat:
  assumes "prefix_free ws"
  shows "set us \<subseteq> set ws \<Longrightarrow> strip ws (concat us) = []"
proof (induction us)
  case Nil
  then show ?case by simp
next
  case (Cons u us)
  from Cons.prems have u: "u \<in> set ws" and us: "set us \<subseteq> set ws" by simp_all
  from assms u have ne: "u \<noteq> []" by (auto simp: prefix_free_def)
  then obtain c cs where ccs: "u @ concat us = c # cs" by (cases u) auto
  have "take (length u) (c # cs) = u" using ccs by (metis append_eq_conv_conj)
  with u ne have "\<exists>w\<in>set ws. w \<noteq> [] \<and> take (length w) (c # cs) = w" by blast
  then obtain w where f: "find (\<lambda>w. w \<noteq> [] \<and> take (length w) (c # cs) = w) ws = Some w"
    by (cases "find (\<lambda>w. w \<noteq> [] \<and> take (length w) (c # cs) = w) ws")
       (auto simp: find_None_iff)
  then have w: "w \<in> set ws" "w \<noteq> []" "take (length w) (u @ concat us) = w"
    using ccs by (auto simp: find_Some_iff)
  have "w = u"
  proof (cases "length w \<le> length u")
    case True
    with w(3) have "take (length w) u = w" by simp
    with assms w(1) u show ?thesis by (auto simp: prefix_free_def)
  next
    case False
    then have "take (length u) w = u"
      using w(3) by (metis append_eq_conv_conj nat_le_linear take_all_iff take_append take_take min.absorb1 append_take_drop_id)
    with assms w(1) u show ?thesis by (auto simp: prefix_free_def)
  qed
  with ne ccs have "drop (length w - 1) cs = concat us"
    by (cases u) auto
  with f ccs Cons.IH [OF us] show ?case by simp
qed

lemma prefix_free_whitespace: "prefix_free whitespace"
  by (simp add: prefix_free_def whitespace_def)

text \<open>
  A field is empty after trimming exactly when it is a sequence, possibly empty, of
  whitespace characters.
\<close>

lemma trim_Nil_iff:
  "trim s = [] \<longleftrightarrow> (\<exists>us. set us \<subseteq> set whitespace \<and> concat us = s)"
proof
  assume t: "trim s = []"
  then have r: "strip (map rev whitespace) (rev (ltrim s)) = []"
    by (simp add: trim_def rtrim_def)
  from strip_Nil_concat [OF r] obtain vs
    where vs: "set vs \<subseteq> set (map rev whitespace)" "concat vs = rev (ltrim s)" by blast
  have "ltrim s = []"
  proof (rule ccontr)
    assume n: "ltrim s \<noteq> []"
    define us where "us = rev (map rev vs)"
    have "concat us = rev (concat vs)"
      by (simp add: us_def rev_concat rev_map)
    with vs(2) have c: "concat us = ltrim s" by simp
    have m: "set us \<subseteq> set whitespace"
      using vs(1) by (auto simp: us_def)
    from n c obtain u us' where u: "us = u # us'" by (cases us) auto
    with m have uw: "u \<in> set whitespace" by simp
    with prefix_free_whitespace have une: "u \<noteq> []" by (auto simp: prefix_free_def)
    from n obtain c cs where ccs: "ltrim s = c # cs" by (cases "ltrim s") auto
    with c u have "take (length u) (c # cs) = u" by (metis append_eq_conv_conj concat.simps(2))
    with uw une have "\<exists>w\<in>set whitespace. w \<noteq> [] \<and> take (length w) (c # cs) = w" by blast
    moreover from ccs have "find (\<lambda>w. w \<noteq> [] \<and> take (length w) (c # cs) = w) whitespace = None"
      unfolding ltrim_def by (rule strip_head)
    ultimately show False by (auto simp: find_None_iff)
  qed
  then show "\<exists>us. set us \<subseteq> set whitespace \<and> concat us = s"
    unfolding ltrim_def by (rule strip_Nil_concat)
next
  assume "\<exists>us. set us \<subseteq> set whitespace \<and> concat us = s"
  then obtain us where "set us \<subseteq> set whitespace" "concat us = s" by blast
  with strip_concat [OF prefix_free_whitespace] have "ltrim s = []"
    by (auto simp: ltrim_def)
  then show "trim s = []" by (simp add: trim_def rtrim_def)
qed

text \<open>
  A title of one no-break space is empty after trimming; a no-break space and an em space
  around a word are stripped; the last byte \<open>0xA0\<close> of the letter U+00E0 is not taken for
  a no-break space.
\<close>

lemma trim_examples:
  "trim [CHR 0xC2, CHR 0xA0] = []"
  "trim ([CHR 0xC2, CHR 0xA0] @ ''Dune'' @ [CHR 0xE2, CHR 0x80, CHR 0x83]) = ''Dune''"
  "trim ('' voil'' @ [CHR 0xC3, CHR 0xA0]) = ''voil'' @ [CHR 0xC3, CHR 0xA0]"
  "trim [CHR 0xEF, CHR 0xBB, CHR 0xBF, CHR 0x09, CHR 0xE3, CHR 0x80, CHR 0x80] = []"
  by (simp_all add: trim_def ltrim_def rtrim_def whitespace_def)

text \<open>Escaping keeps a non-empty value non-empty.\<close>

lemma escape_Nil_iff: "escape s = [] \<longleftrightarrow> s = []"
  by (cases s) (auto simp: escape_def)

lemma isLength_min_1: "isLength_min 1 s \<longleftrightarrow> s \<noteq> []"
  by (cases s) (simp_all add: isLength_min_def)

lemma body_chain_eq:
  "body_chain f m v =
     (escape (trim v), if trim v = [] then [\<lparr>field = f, msg = m\<rparr>] else [])"
  unfolding body_chain_def Let_def isLength_min_1 by simp

lemma validate_eq:
  "validate req =
     (req\<lparr>body_title := escape (trim (body_title req)),
          body_author := escape (trim (body_author req)),
          body_summary := escape (trim (body_summary req))\<rparr>,
      (if trim (body_title req) = [] then [\<lparr>field = ''title'', msg = ''Title must not be empty.''\<rparr>] else []) @
      (if trim (body_author req) = [] then [\<lparr>field = ''author'', msg = ''Author must not be empty.''\<rparr>] else []) @
      (if trim (body_summary req) = [] then [\<lparr>field = ''summary'', msg = ''Summary must not be empty.''\<rparr>] else []))"
  by (simp add: validate_def body_chain_eq)

lemma Book_findById_None: "Book_findById i st = None \<longleftrightarrow> i \<notin> book_id ` set (books st)"
  by (auto simp: Book_findById_def find_None_iff)



lemma update_one_ids: "map book_id (update_one i u bs) = map book_id bs"
  by (induction bs) simp_all

lemma update_one_others:
  "filter (\<lambda>b. book_id b \<noteq> i) (update_one i u bs) = filter (\<lambda>b. book_id b \<noteq> i) bs"
  by (induction bs) simp_all

lemma update_one_find:
  "find (\<lambda>b. book_id b = i) (update_one i u bs) =
     map_option (\<lambda>b. \<lparr>book_id = i, title = title u, author = author u, summary = summary u\<rparr>)
       (find (\<lambda>b. book_id b = i) bs)"
  by (induction bs) auto

lemma update_one_absent: "i \<notin> book_id ` set bs \<Longrightarrow> update_one i u bs = bs"
  by (induction bs) auto

lemma delete_one_others:
  "filter (\<lambda>b. book_id b \<noteq> i) (delete_one i bs) = filter (\<lambda>b. book_id b \<noteq> i) bs"
  by (induction bs) simp_all

lemma delete_one_count:
  "length (filter (\<lambda>b. book_id b = i) (delete_one i bs)) =
     length (filter (\<lambda>b. book_id b = i) bs) - 1"
  by (induction bs) simp_all

text \<open>What the update handler does with a body that passes validation.\<close>

lemma valid_update_outcome:
  assumes "trim (body_title req) \<noteq> []" and "trim (body_author req) \<noteq> []"
    and "trim (body_summary req) \<noteq> []"
  shows "book_update_post req st =
           (st\<lparr>books := update_one (params_id req)
                  \<lparr>book_id = params_id req, title = escape (trim (body_title req)),
                   author = escape (trim (body_author req)),
                   summary = escape (trim (body_summary req))\<rparr> (books st)\<rparr>,
            [Redirect (''/catalog/book/'' @ params_id req)])"
  using assms
  by (simp add: book_update_post_def validate_eq Book_findByIdAndUpdate_def url_def)

subsection \<open>Submissions that fail validation\<close>

text \<open>
  C1. When the title, the author or the summary of a create or an update submission is
  empty after trimming (a sequence of whitespace characters, by \<open>trim_Nil_iff\<close>), the store is left
  as it was and the handler makes one call: it renders \<^verbatim>\<open>book_form\<close> with the candidate
  book built from the trimmed and escaped values (carrying the fresh identifier on create
  and the identifier of the path on update), with one error per violated field, in the
  order title, author, summary and with the messages "Title must not be empty.", "Author
  must not be empty." and "Summary must not be empty.", and with the Author list sorted by
  family name, which holds every stored Author.
\<close>

theorem invalid_submission_renders_form_again:
  assumes "trim (body_title req) = [] \<or> trim (body_author req) = [] \<or> trim (body_summary req) = []"
  shows
    "book_create_post oid req st =
       (st, [Render ''book_form''
               \<lparr>vm_title = ''Create Book'', vm_book_list = None,
                vm_authors = Some (sort_key family_name (authors st)),
                vm_book = Some (Document
                  \<lparr>book_id = oid, title = escape (trim (body_title req)),
                   author = escape (trim (body_author req)),
                   summary = escape (trim (body_summary req))\<rparr>),
                vm_errors = Some (
                  (if trim (body_title req) = [] then [\<lparr>field = ''title'', msg = ''Title must not be empty.''\<rparr>] else []) @
                  (if trim (body_author req) = [] then [\<lparr>field = ''author'', msg = ''Author must not be empty.''\<rparr>] else []) @
                  (if trim (body_summary req) = [] then [\<lparr>field = ''summary'', msg = ''Summary must not be empty.''\<rparr>] else []))\<rparr>])
     \<and> book_update_post req st =
       (st, [Render ''book_form''
               \<lparr>vm_title = ''Update Book'', vm_book_list = None,
                vm_authors = Some (sort_key family_name (authors st)),
                vm_book = Some (Document
                  \<lparr>book_id = params_id req, title = escape (trim (body_title req)),
                   author = escape (trim (body_author req)),
                   summary = escape (trim (body_summary req))\<rparr>),
                vm_errors = Some (
                  (if trim (body_title req) = [] then [\<lparr>field = ''title'', msg = ''Title must not be empty.''\<rparr>] else []) @
                  (if trim (body_author req) = [] then [\<lparr>field = ''author'', msg = ''Author must not be empty.''\<rparr>] else []) @
                  (if trim (body_summary req) = [] then [\<lparr>field = ''summary'', msg = ''Summary must not be empty.''\<rparr>] else []))\<rparr>])
     \<and> mset (sort_key family_name (authors st)) = mset (authors st)"
proof -
  let ?errs = "(if trim (body_title req) = [] then [\<lparr>field = ''title'', msg = ''Title must not be empty.''\<rparr>] else []) @
      (if trim (body_author req) = [] then [\<lparr>field = ''author'', msg = ''Author must not be empty.''\<rparr>] else []) @
      (if trim (body_summary req) = [] then [\<lparr>field = ''summary'', msg = ''Summary must not be empty.''\<rparr>] else [])"
  from assms have ne: "?errs \<noteq> []" by auto
  have c: "book_create_post oid req st = (st, [Render ''book_form''
               \<lparr>vm_title = ''Create Book'', vm_book_list = None,
                vm_authors = Some (sort_key family_name (authors st)),
                vm_book = Some (Document
                  \<lparr>book_id = oid, title = escape (trim (body_title req)),
                   author = escape (trim (body_author req)),
                   summary = escape (trim (body_summary req))\<rparr>),
                vm_errors = Some ?errs\<rparr>])"
    unfolding book_create_post_def validate_eq Let_def prod.case if_P [OF ne] Author_find_sorted_def
    by simp
  have u: "book_update_post req st = (st, [Render ''book_form''
               \<lparr>vm_title = ''Update Book'', vm_book_list = None,
                vm_authors = Some (sort_key family_name (authors st)),
                vm_book = Some (Document
                  \<lparr>book_id = params_id req, title = escape (trim (body_title req)),
                   author = escape (trim (body_author req)),
                   summary = escape (trim (body_summary req))\<rparr>),
                vm_errors = Some ?errs\<rparr>])"
    unfolding book_update_post_def validate_eq Let_def prod.case if_P [OF ne] Author_find_sorted_def
    by simp
  from c u show ?thesis by simp
qed

theorem invalid_submission_renders_form_again_witness:
  "(trim (body_title blank_title_request) = [] \<or> trim (body_author blank_title_request) = []
      \<or> trim (body_summary blank_title_request) = [])
   \<and> book_create_post ''N1'' blank_title_request sample_store =
       (sample_store,
        [Render ''book_form''
           \<lparr>vm_title = ''Create Book'', vm_book_list = None,
            vm_authors = Some [\<lparr>author_id = ''A1'', family_name = ''Austen''\<rparr>,
                               \<lparr>author_id = ''A2'', family_name = ''Woolf''\<rparr>],
            vm_book = Some (Document
              \<lparr>book_id = ''N1'', title = '''', author = '''',
               summary = ''&lt;S&gt; &amp; T''\<rparr>),
            vm_errors = Some [\<lparr>field = ''title'', msg = ''Title must not be empty.''\<rparr>,
                              \<lparr>field = ''author'', msg = ''Author must not be empty.''\<rparr>]\<rparr>])
   \<and> book_update_post blank_title_request sample_store =
       (sample_store,
        [Render ''book_form''
           \<lparr>vm_title = ''Update Book'', vm_book_list = None,
            vm_authors = Some [\<lparr>author_id = ''A1'', family_name = ''Austen''\<rparr>,
                               \<lparr>author_id = ''A2'', family_name = ''Woolf''\<rparr>],
            vm_book = Some (Document
              \<lparr>book_id = ''B1'', title = '''', author = '''',
               summary = ''&lt;S&gt; &amp; T''\<rparr>),
            vm_errors = Some [\<lparr>field = ''title'', msg = ''Title must not be empty.''\<rparr>,
                              \<lparr>field = ''author'', msg = ''Author must not be empty.''\<rparr>]\<rparr>])"
  using invalid_submission_renders_form_again
    [where req = blank_title_request and oid = "''N1''" and st = sample_store]
  by (simp add: eval_simps)

subsection \<open>Creating a book\<close>

text \<open>
  C2. When title, author and summary of a create submission are all non-empty after
  trimming, the Book collection afterwards is the collection before followed by one new
  document: it carries the identifier drawn for it and, as title, author and summary, the
  submitted values trimmed and escaped. The Author collection is as before, and the one
  call of the handler is a redirect to the canonical URL of that identifier.
\<close>

theorem valid_create_persists_book:
  assumes "trim (body_title req) \<noteq> []" and "trim (body_author req) \<noteq> []"
    and "trim (body_summary req) \<noteq> []"
  shows "book_create_post oid req st =
           (st\<lparr>books := books st @
                 [\<lparr>book_id = oid, title = escape (trim (body_title req)),
                   author = escape (trim (body_author req)),
                   summary = escape (trim (body_summary req))\<rparr>]\<rparr>,
            [Redirect (''/catalog/book/'' @ oid)])"
  using assms
  by (simp add: book_create_post_def validate_eq save_def url_def)

theorem valid_create_persists_book_witness:
  "trim (body_title padded_request) \<noteq> [] \<and> trim (body_author padded_request) \<noteq> []
   \<and> trim (body_summary padded_request) \<noteq> []
   \<and> book_create_post ''N1'' padded_request sample_store =
       (\<lparr>books = [\<lparr>book_id = ''B1'', title = ''b'', author = ''A1'', summary = ''s1''\<rparr>,
                  \<lparr>book_id = ''B2'', title = ''Z'', author = ''A9'', summary = ''s2''\<rparr>,
                  \<lparr>book_id = ''N1'', title = ''Dune &amp; &lt;Sons&gt;'', author = ''A2'',
                    summary = ''New Summary''\<rparr>],
         authors = [\<lparr>author_id = ''A2'', family_name = ''Woolf''\<rparr>,
                    \<lparr>author_id = ''A1'', family_name = ''Austen''\<rparr>]\<rparr>,
        [Redirect ''/catalog/book/N1''])"
  using valid_create_persists_book
    [where req = padded_request and oid = "''N1''" and st = sample_store]
  by (simp add: eval_simps)

subsection \<open>Detail and update form of a book that is not stored\<close>

text \<open>
  C3. When the identifier of the path names no stored Book, the detail handler and the
  handler showing the update form each make one call only: \<^verbatim>\<open>next\<close> with an error of
  message "Book not found" and status 404. Nothing is rendered and the store is as
  before.
\<close>

theorem not_found_is_forwarded:
  assumes "params_id req \<notin> book_id ` set (books st)"
  shows "book_detail req st = (st, [Next \<lparr>message = ''Book not found'', status = 404\<rparr>])
       \<and> book_update_get req st = (st, [Next \<lparr>message = ''Book not found'', status = 404\<rparr>])
       \<and> filter is_Render (snd (book_detail req st)) = []
       \<and> filter is_Render (snd (book_update_get req st)) = []"
proof -
  from assms have "Book_findById (params_id req) st = None"
    by (simp only: Book_findById_None not_False_eq_True)
  then show ?thesis
    by (simp add: book_detail_def book_update_get_def)
qed

theorem not_found_is_forwarded_witness:
  "params_id missing_request \<notin> book_id ` set (books sample_store)
   \<and> book_detail missing_request sample_store =
       (sample_store, [Next \<lparr>message = ''Book not found'', status = 404\<rparr>])
   \<and> book_update_get missing_request sample_store =
       (sample_store, [Next \<lparr>message = ''Book not found'', status = 404\<rparr>])"
  using not_found_is_forwarded [where req = missing_request and st = sample_store]
  by simp

subsection \<open>The book list and the home page\<close>



text \<open>
  C8. In every store the home handler retrieves what the list handler retrieves (all
  books, sorted by title, projected to title and author, the author populated): the view
  model of the home page is the view model of the list with the title "Home" in place of
  "Book List", and the two calls differ otherwise in the name of the template only.
\<close>

theorem home_retrieval_same_as_list:
  "\<exists>vm. book_list req st = (st, [Render ''book_list'' vm])
        \<and> index req st = (st, [Render ''index'' (vm\<lparr>vm_title := ''Home''\<rparr>)])
        \<and> vm_title vm = ''Book List''
        \<and> vm_book_list vm =
            Some (map (populate st) (map select_title_author (sort_key title (books st))))"
  by (simp add: book_list_def index_def Book_find_sorted_def)

subsection \<open>Updating a book\<close>

text \<open>
  C5. When title, author and summary of an update submission are all non-empty after
  trimming, the one call of the handler is a redirect to the canonical URL of the
  identifier of the path; the identifiers of the stored books are the same, in the same
  order, as before; the Book found under the identifier of the path, if there was one,
  now has that identifier and, as title, author and summary, the submitted values trimmed
  and escaped; every Book with another identifier, and the Author collection, are as
  before.
\<close>

theorem valid_update_in_place:
  assumes "trim (body_title req) \<noteq> []" and "trim (body_author req) \<noteq> []"
    and "trim (body_summary req) \<noteq> []"
  shows "snd (book_update_post req st) = [Redirect (''/catalog/book/'' @ params_id req)]
     \<and> map book_id (books (fst (book_update_post req st))) = map book_id (books st)
     \<and> find (\<lambda>b. book_id b = params_id req) (books (fst (book_update_post req st))) =
         map_option (\<lambda>b. \<lparr>book_id = params_id req, title = escape (trim (body_title req)),
                           author = escape (trim (body_author req)),
                           summary = escape (trim (body_summary req))\<rparr>)
           (find (\<lambda>b. book_id b = params_id req) (books st))
     \<and> filter (\<lambda>b. book_id b \<noteq> params_id req) (books (fst (book_update_post req st))) =
         filter (\<lambda>b. book_id b \<noteq> params_id req) (books st)
     \<and> authors (fst (book_update_post req st)) = authors st"
  unfolding valid_update_outcome [OF assms]
  by (simp add: update_one_ids update_one_others update_one_find)

theorem valid_update_in_place_witness:
  "trim (body_title padded_request) \<noteq> [] \<and> trim (body_author padded_request) \<noteq> []
   \<and> trim (body_summary padded_request) \<noteq> []
   \<and> snd (book_update_post padded_request sample_store) = [Redirect ''/catalog/book/B1'']
   \<and> map book_id (books (fst (book_update_post padded_request sample_store))) = [''B1'', ''B2'']
   \<and> find (\<lambda>b. book_id b = ''B1'') (books (fst (book_update_post padded_request sample_store))) =
        Some \<lparr>book_id = ''B1'', title = ''Dune &amp; &lt;Sons&gt;'', author = ''A2'',
              summary = ''New Summary''\<rparr>
   \<and> filter (\<lambda>b. book_id b \<noteq> ''B1'') (books (fst (book_update_post padded_request sample_store))) =
        [\<lparr>book_id = ''B2'', title = ''Z'', author = ''A9'', summary = ''s2''\<rparr>]"
  using valid_update_in_place [where req = padded_request and st = sample_store]
  by (simp add: eval_simps)

text \<open>
  C10. An update submission whose title, author and summary are all non-empty after
  trimming is answered by a redirect to the canonical URL of the identifier of the path
  whether or not a Book with that identifier is stored; when none is, nothing is written.
  No update submission, valid or not, makes the handler call \<^verbatim>\<open>next\<close>, so the
  404 of the update form is never forwarded here.
\<close>

theorem update_post_redirects_without_book:
  "(trim (body_title req) \<noteq> [] \<and> trim (body_author req) \<noteq> [] \<and> trim (body_summary req) \<noteq> []
      \<longrightarrow> snd (book_update_post req st) = [Redirect (''/catalog/book/'' @ params_id req)]
        \<and> (params_id req \<notin> book_id ` set (books st) \<longrightarrow> fst (book_update_post req st) = st))
   \<and> filter is_Next (snd (book_update_post req st)) = []"
proof -
  have "filter is_Next (snd (book_update_post req st)) = []"
    by (simp add: book_update_post_def validate_eq Let_def)
  moreover have "snd (book_update_post req st) = [Redirect (''/catalog/book/'' @ params_id req)]
        \<and> (params_id req \<notin> book_id ` set (books st) \<longrightarrow> fst (book_update_post req st) = st)"
    if "trim (body_title req) \<noteq> []" "trim (body_author req) \<noteq> []" "trim (body_summary req) \<noteq> []"
    unfolding valid_update_outcome [OF that]
    by (simp add: update_one_absent)
  ultimately show ?thesis by blast
qed

theorem update_post_redirects_without_book_witness:
  "trim (body_title missing_request) \<noteq> [] \<and> trim (body_author missing_request) \<noteq> []
   \<and> trim (body_summary missing_request) \<noteq> []
   \<and> params_id missing_request \<notin> book_id ` set (books sample_store)
   \<and> snd (book_update_post missing_request sample_store) = [Redirect ''/catalog/book/B9'']
   \<and> fst (book_update_post missing_request sample_store) = sample_store"
  using update_post_redirects_without_book [where req = missing_request and st = sample_store]
  by (simp add: eval_simps)

subsection \<open>Deleting a book\<close>

text \<open>
  C6. On every delete submission the store afterwards is the store with the first Book
  of the identifier given in the body removed: the books of every other identifier are
  as before, and there is one Book fewer of that identifier if there was any. The
  identifier of the path decides only whether a redirect to the book list is issued
  before the deletion as well; the last call is always that redirect. When the
  identifier of the path names no stored Book, the first call of the delete form and of
  the delete submission is the redirect to the book list, and neither calls
  \<^verbatim>\<open>next\<close>.
\<close>

theorem delete_post_deletes_body_id:
  "fst (book_delete_post req st) = st\<lparr>books := delete_one (body_id req) (books st)\<rparr>
   \<and> filter (\<lambda>b. book_id b \<noteq> body_id req) (books (fst (book_delete_post req st))) =
       filter (\<lambda>b. book_id b \<noteq> body_id req) (books st)
   \<and> length (filter (\<lambda>b. book_id b = body_id req) (books (fst (book_delete_post req st)))) =
       length (filter (\<lambda>b. book_id b = body_id req) (books st)) - 1
   \<and> snd (book_delete_post req st) =
       (if params_id req \<in> book_id ` set (books st) then [] else [Redirect ''/catalog/books''])
         @ [Redirect ''/catalog/books'']
   \<and> (params_id req \<notin> book_id ` set (books st) \<longrightarrow>
         hd (snd (book_delete_get req st)) = Redirect ''/catalog/books''
       \<and> filter is_Next (snd (book_delete_get req st)) = []
       \<and> hd (snd (book_delete_post req st)) = Redirect ''/catalog/books''
       \<and> filter is_Next (snd (book_delete_post req st)) = [])"
  by (simp add: book_delete_post_def book_delete_get_def Book_findByIdAndDelete_def
      Book_findById_None delete_one_others delete_one_count)

theorem delete_post_deletes_body_id_witness:
  "params_id missing_request \<notin> book_id ` set (books sample_store)
   \<and> books (fst (book_delete_post missing_request sample_store)) =
       [\<lparr>book_id = ''B1'', title = ''b'', author = ''A1'', summary = ''s1''\<rparr>]
   \<and> snd (book_delete_post missing_request sample_store) =
       [Redirect ''/catalog/books'', Redirect ''/catalog/books'']
   \<and> hd (snd (book_delete_get missing_request sample_store)) = Redirect ''/catalog/books''
   \<and> books (fst (book_delete_post valid_request sample_store)) =
       [\<lparr>book_id = ''B1'', title = ''b'', author = ''A1'', summary = ''s1''\<rparr>]
   \<and> snd (book_delete_post valid_request sample_store) = [Redirect ''/catalog/books'']"
  using delete_post_deletes_body_id [where req = missing_request and st = sample_store]
    delete_post_deletes_body_id [where req = valid_request and st = sample_store]
  by simp

text \<open>
  C7. The delete form for an identifier that names no stored Book is specified to
  redirect to the book list and to render no view. On the empty store the handler issues
  the redirect and then calls \<^verbatim>\<open>res.render\<close> all the same: the branch that redirects
  does not return, unlike the not-found branches of the detail and the update form.
\<close>

theorem delete_get_missing_book_is_rendered:
  "book_delete_get
     \<lparr>params_id = ''does-not-exist'', body_id = '''', body_title = '''', body_author = '''',
      body_summary = ''''\<rparr>
     \<lparr>books = [], authors = []\<rparr> =
   (\<lparr>books = [], authors = []\<rparr>,
    [Redirect ''/catalog/books'',
     Render ''book_delete''
       \<lparr>vm_title = ''Delete Book'', vm_book_list = None, vm_authors = None,
        vm_book = Some Null, vm_errors = None\<rparr>])
   \<and> filter is_Render (snd (book_delete_get
         \<lparr>params_id = ''does-not-exist'', body_id = '''', body_title = '''',
          body_author = '''', body_summary = ''''\<rparr>
         \<lparr>books = [], authors = []\<rparr>)) \<noteq> []"
  by (simp add: book_delete_get_def Book_findById_def)

text \<open>
  C9. Whenever the lookup of the delete form finds no Book, the handler calls the
  redirect to the book list and after it the renderer, with the template
  \<^verbatim>\<open>book_delete\<close> and the view model of title "Delete Book" whose book is
  \<^verbatim>\<open>null\<close>.
\<close>

theorem delete_get_renders_null_book:
  assumes "params_id req \<notin> book_id ` set (books st)"
  shows "book_delete_get req st =
           (st, [Redirect ''/catalog/books'',
                 Render ''book_delete''
                   \<lparr>vm_title = ''Delete Book'', vm_book_list = None, vm_authors = None,
                    vm_book = Some Null, vm_errors = None\<rparr>])"
proof -
  from assms have "Book_findById (params_id req) st = None"
    by (simp only: Book_findById_None not_False_eq_True)
  then show ?thesis by (simp add: book_delete_get_def)
qed

theorem delete_get_renders_null_book_witness:
  "params_id missing_request \<notin> book_id ` set (books sample_store)
   \<and> book_delete_get missing_request sample_store =
       (sample_store,
        [Redirect ''/catalog/books'',
         Render ''book_delete''
           \<lparr>vm_title = ''Delete Book'', vm_book_list = None, vm_authors = None,
            vm_book = Some Null, vm_errors = None\<rparr>])"
  using delete_get_renders_null_book [where req = missing_request and st = sample_store]
  by simp

end
